theory Spec2Isabelle
  imports Main "HOL-Library.Word" "HOL-Library.Sublist"
begin

section \<open>Platform values\<close>

text \<open>
  JavaScript strings are modelled as \<^typ>\<open>string\<close> (code units below 256), a value
  that may be \<open>null\<close> or \<open>undefined\<close> as an \<^typ>\<open>'a option\<close>, file contents as
  lists of bytes.
\<close>

type_synonym bytes = "8 word list"

text \<open>\<open>String.prototype.includes\<close>: does \<open>sub\<close> occur in \<open>s\<close> as a contiguous run.\<close>

fun includes_str :: "string \<Rightarrow> string \<Rightarrow> bool" where
  "includes_str [] sub = (sub = [])"
| "includes_str (c # cs) sub = (prefix sub (c # cs) \<or> includes_str cs sub)"

section \<open>Color Extractor (image sync script)\<close>

text \<open>\<open>Number.prototype.toString(16)\<close> on a non-negative integer.\<close>

definition hex_digit :: "nat \<Rightarrow> char" where
  "hex_digit d = ''0123456789abcdef'' ! d"

fun toString16 :: "nat \<Rightarrow> string" where
  "toString16 n = (if n < 16 then [hex_digit n] else toString16 (n div 16) @ [hex_digit (n mod 16)])"

declare toString16.simps [simp del]

text \<open>
  The callback of \<open>[r, g, b].map(...)\<close> in \<open>extractDominantColor\<close>:
  \<open>const hex = x.toString(16); return hex.length === 1 ? '0' + hex : hex\<close>.
\<close>

definition channel_hex :: "nat \<Rightarrow> string" where
  "channel_hex x = (let hex = toString16 x in if length hex = 1 then CHR ''0'' # hex else hex)"

text \<open>
  \<open>sharp(imagePath).stats()\<close> yields the dominant sRGB colour, three 8-bit channels,
  or throws; the result of decoding is taken as an argument (\<open>None\<close> when sharp throws).
\<close>

record rgb =
  r :: "8 word"
  g :: "8 word"
  b :: "8 word"

definition rgb_to_hex :: "rgb \<Rightarrow> string" where
  "rgb_to_hex d = CHR ''#'' # concat (map (\<lambda>x. channel_hex (unat x)) [r d, g d, b d])"

definition extractDominantColor :: "rgb option \<Rightarrow> string option" where
  "extractDominantColor stats = (case stats of None \<Rightarrow> None | Some d \<Rightarrow> Some (rgb_to_hex d))"

definition lower_hex :: "char \<Rightarrow> bool" where
  "lower_hex c = (c \<in> set ''0123456789abcdef'')"

text \<open>
  The \<open>hex\<close> getter of a \<open>node-vibrant\<close> swatch, as the library computes it from
  the swatch's channels:
  \<open>'#' + ((1 << 24) + (r << 16) + (g << 8) + b).toString(16).slice(1, 7)\<close>.
  The channels are the three bytes that the shifts keep.
\<close>

definition swatch_hex :: "rgb \<Rightarrow> string" where
  "swatch_hex d =
     CHR ''#'' # take 6 (drop 1
       (toString16 (16777216 + 65536 * unat (r d) + 256 * unat (g d) + unat (b d))))"

text \<open>
  The colour format in the words of the specification: \<open>#\<close>, then for each of the
  three channels its value as two hexadecimal digits, the high digit first, padded
  with a zero. \<open>hex_value\<close> reads a string of lowercase hexadecimal digits back.
\<close>

definition spec_two_digits :: "8 word \<Rightarrow> string" where
  "spec_two_digits x = [hex_digit (unat x div 16), hex_digit (unat x mod 16)]"

definition spec_hex_color :: "rgb \<Rightarrow> string" where
  "spec_hex_color d = CHR ''#'' # spec_two_digits (r d) @ spec_two_digits (g d) @ spec_two_digits (b d)"

definition digit_value :: "char \<Rightarrow> nat" where
  "digit_value c = length (takeWhile (\<lambda>x. x \<noteq> c) ''0123456789abcdef'')"

definition hex_value :: "string \<Rightarrow> nat" where
  "hex_value ds = foldl (\<lambda>a c. 16 * a + digit_value c) 0 ds"

section \<open>Environment and file system\<close>

text \<open>
  What the scripts obtain from outside the repository is collected in an environment:
  the answer of \<open>fetch\<close> for a URL, the \<open>pathname\<close> that \<open>new URL(u)\<close> computes
  (\<open>None\<close> when the constructor throws), the output of the \<open>cwebp\<close> tool on a file's
  bytes (\<open>None\<close> when the tool fails), what \<open>/bin/sh\<close> makes of a word written
  between double quotes (\<open>None\<close> when the shell rejects the command line or an
  expansion fails), the dominant colour that \<open>sharp\<close> reports and the palette of
  \<open>node-vibrant\<close> (\<open>None\<close> when decoding throws).
\<close>

datatype response = NetworkError | Response bool bytes

text \<open>A palette holds four swatches, each possibly \<open>null\<close>; a swatch is its colour.\<close>

record palette =
  Vibrant :: "rgb option"
  DarkVibrant :: "rgb option"
  Muted :: "rgb option"
  DarkMuted :: "rgb option"

record env =
  fetch :: "string \<Rightarrow> response"
  url_pathname :: "string \<Rightarrow> string option"
  cwebp :: "bytes \<Rightarrow> bytes option"
  sh_word :: "string \<Rightarrow> string option"
  sharp_stats :: "bytes \<Rightarrow> rgb option"
  vibrant :: "bytes \<Rightarrow> palette option"

text \<open>
  The file system maps a path to a directory or to a file with its content. The two kinds
  of JSON documents the scripts write are kept as values rather than as printed text.
  The world also logs every URL passed to \<open>fetch\<close> and every \<open>cwebp\<close> invocation
  (input path, output path). Failures of the local disk other than writing onto a
  directory are not modelled.
\<close>

datatype 'p content = Binary bytes | MetaJson "string option" | PostsJson "'p list"

datatype 'p node = Dir | File "'p content"

record 'p world =
  fs :: "string \<Rightarrow> 'p node option"
  fetched :: "string list"
  transcoded :: "(string \<times> string) list"

definition existsSync :: "'p world \<Rightarrow> string \<Rightarrow> bool" where
  "existsSync w p = (fs w p \<noteq> None)"

definition mkdirSync :: "'p world \<Rightarrow> string \<Rightarrow> 'p world" where
  "mkdirSync w p = w\<lparr>fs := (fs w)(p \<mapsto> Dir)\<rparr>"

text \<open>\<open>if (!fs.existsSync(d)) fs.mkdirSync(d, { recursive: true })\<close>\<close>

definition ensure_dir :: "'p world \<Rightarrow> string \<Rightarrow> 'p world" where
  "ensure_dir w p = (if \<not> existsSync w p then mkdirSync w p else w)"

text \<open>\<open>fs.writeFileSync\<close> throws (\<open>None\<close>) when the path is a directory.\<close>

definition writeFileSync :: "'p world \<Rightarrow> string \<Rightarrow> 'p content \<Rightarrow> 'p world option" where
  "writeFileSync w p c = (if fs w p = Some Dir then None else Some (w\<lparr>fs := (fs w)(p \<mapsto> File c)\<rparr>))"

definition unlinkSync :: "'p world \<Rightarrow> string \<Rightarrow> 'p world" where
  "unlinkSync w p = w\<lparr>fs := (fs w)(p := None)\<rparr>"

definition read_binary :: "'p world \<Rightarrow> string \<Rightarrow> bytes option" where
  "read_binary w p = (case fs w p of Some (File (Binary bs)) \<Rightarrow> Some bs | _ \<Rightarrow> None)"

text \<open>
  The paths reach \<open>cwebp\<close> through a shell command line, each between double quotes.
  Inside double quotes the shell leaves every character alone except \<open>$\<close>, the
  backquote, the backslash and the double quote; a word with one of these is whatever
  the shell makes of it.
\<close>

definition shell_plain :: "string \<Rightarrow> bool" where
  "shell_plain p = list_all (\<lambda>c. c \<notin> set [CHR ''$'', CHR 0x60, CHR 0x5C, CHR 0x22]) p"

definition shell_word :: "env \<Rightarrow> string \<Rightarrow> string option" where
  "shell_word e p = (if shell_plain p then Some p else sh_word e p)"

text \<open>
  \<open>execSync(`cwebp -q 85 "${src}" -o "${dst}"`)\<close>: the shell expands both words,
  \<open>cwebp\<close> reads the first file and writes the transcoded bytes to the second; the
  result is \<open>False\<close> when the command fails. The invocation is logged either way, with
  the paths as the script wrote them. Other effects of a command substitution are not
  modelled.
\<close>

definition exec_cwebp :: "env \<Rightarrow> 'p world \<Rightarrow> string \<Rightarrow> string \<Rightarrow> 'p world \<times> bool" where
  "exec_cwebp e w src dst =
     (let w1 = w\<lparr>transcoded := transcoded w @ [(src, dst)]\<rparr> in
      case shell_word e src of
        None \<Rightarrow> (w1, False)
      | Some src' \<Rightarrow>
          (case shell_word e dst of
             None \<Rightarrow> (w1, False)
           | Some dst' \<Rightarrow>
               (case read_binary w1 src' of
                  None \<Rightarrow> (w1, False)
                | Some bs \<Rightarrow>
                    (case cwebp e bs of
                       None \<Rightarrow> (w1, False)
                     | Some out \<Rightarrow>
                         (case writeFileSync w1 dst' (Binary out) of
                            None \<Rightarrow> (w1, False)
                          | Some w2 \<Rightarrow> (w2, True))))))"

section \<open>Paths and file names\<close>

text \<open>\<open>path.basename\<close> (POSIX): drop trailing slashes, keep what follows the last slash.\<close>

definition basename :: "string \<Rightarrow> string" where
  "basename p = rev (takeWhile (\<lambda>c. c \<noteq> CHR ''/'') (dropWhile (\<lambda>c. c = CHR ''/'') (rev p)))"

text \<open>
  \<open>path.join(dir, name)\<close> for a \<open>name\<close> that is a basename; the normalisation of
  \<open>.\<close> and \<open>..\<close> segments is not modelled.
\<close>

definition path_join :: "string \<Rightarrow> string \<Rightarrow> string" where
  "path_join dir name = (if name = [] then dir else dir @ ''/'' @ name)"

definition publicImagesDir :: string where "publicImagesDir = ''public/images''"
definition distImagesDir :: string where "distImagesDir = ''dist/images''"
definition metaDir :: string where "metaDir = ''public/images/meta''"

text \<open>Case folding of a regular expression with the \<open>i\<close> flag, on ASCII letters.\<close>

definition lower_ascii :: "char \<Rightarrow> char" where
  "lower_ascii c = (let n = (of_char c :: nat) in if 65 \<le> n \<and> n \<le> 90 then char_of (n + 32) else c)"

definition ci_eq :: "string \<Rightarrow> string \<Rightarrow> bool" where
  "ci_eq s t = (map lower_ascii s = map lower_ascii t)"

text \<open>
  \<open>fileName.replace(/\.(jpg|jpeg|png)$/i, '.webp')\<close>: the leftmost position at which
  the rest of the name is one of the three extensions is replaced.
\<close>

definition is_ext :: "string \<Rightarrow> bool" where
  "is_ext t = (ci_eq t ''.jpg'' \<or> ci_eq t ''.jpeg'' \<or> ci_eq t ''.png'')"

fun replace_ext :: "string \<Rightarrow> string" where
  "replace_ext [] = []"
| "replace_ext (c # cs) = (if is_ext (c # cs) then ''.webp'' else c # replace_ext cs)"

section \<open>Asset cache\<close>

record image_result =
  localPath :: "string option"
  dominantColor :: "string option"

definition null_result :: image_result where
  "null_result = \<lparr>localPath = None, dominantColor = None\<rparr>"

text \<open>
  \<open>!imageUrl || (!imageUrl.includes('.local') && !imageUrl.includes('localhost'))\<close>
\<close>

definition not_local :: "string option \<Rightarrow> bool" where
  "not_local imageUrl =
     (case imageUrl of
        None \<Rightarrow> True
      | Some u \<Rightarrow> u = [] \<or> (\<not> includes_str u ''.local'' \<and> \<not> includes_str u ''localhost''))"

text \<open>\<open>extractDominantColor(imagePath)\<close> of the image sync script, reading the file.\<close>

definition extractColorAt :: "env \<Rightarrow> 'p world \<Rightarrow> string \<Rightarrow> string option" where
  "extractColorAt e w p =
     extractDominantColor (case read_binary w p of None \<Rightarrow> None | Some bs \<Rightarrow> sharp_stats e bs)"

definition truthy :: "string option \<Rightarrow> bool" where
  "truthy v = (case v of None \<Rightarrow> False | Some s \<Rightarrow> s \<noteq> [])"

subsection \<open>\<open>downloadAndConvertImage\<close> (image sync script)\<close>

text \<open>The branch taken when the WebP file already exists in \<open>public/images\<close>.\<close>

definition cache_hit :: "env \<Rightarrow> 'p world \<Rightarrow> string \<Rightarrow> image_result \<times> 'p world" where
  "cache_hit e w webpFileName =
     (let webpPublicPath = path_join publicImagesDir webpFileName;
          color = extractColorAt e w webpPublicPath;
          result = \<lparr>localPath = Some (''/images/'' @ webpFileName), dominantColor = color\<rparr>
      in if truthy color then
           (let w1 = ensure_dir w metaDir in
            case writeFileSync w1 (path_join metaDir (webpFileName @ ''.json'')) (MetaJson color) of
              None \<Rightarrow> (null_result, w1)
            | Some w2 \<Rightarrow> (result, w2))
         else (result, w))"

text \<open>The conversion block and what follows it, once both raw copies are written.\<close>

definition convert_and_measure ::
  "env \<Rightarrow> 'p world \<Rightarrow> string \<Rightarrow> string \<Rightarrow> image_result \<times> 'p world" where
  "convert_and_measure e w fileName webpFileName =
     (let publicImagePath = path_join publicImagesDir fileName;
          distImagePath = path_join distImagesDir fileName;
          webpPublicPath = path_join publicImagesDir webpFileName;
          webpDistPath = path_join distImagesDir webpFileName;
          raw = \<lparr>localPath = Some (''/images/'' @ fileName), dominantColor = None\<rparr>
      in case exec_cwebp e w publicImagePath webpPublicPath of
           (w1, ok1) \<Rightarrow>
             if \<not> ok1 then (raw, w1)
             else (case exec_cwebp e w1 distImagePath webpDistPath of
               (w2, ok2) \<Rightarrow>
                 if \<not> ok2 then (raw, w2)
                 else
                   (let w3 = unlinkSync (unlinkSync w2 publicImagePath) distImagePath;
                        color = extractColorAt e w3 webpPublicPath
                    in case writeFileSync w3 (path_join metaDir (webpFileName @ ''.json''))
                              (MetaJson color) of
                         None \<Rightarrow> (null_result, w3)
                       | Some w4 \<Rightarrow>
                           (\<lparr>localPath = Some (''/images/'' @ webpFileName),
                             dominantColor = color\<rparr>, w4))))"

text \<open>The branch taken when nothing is cached: fetch, store the raw bytes twice, convert.\<close>

definition fetch_and_store ::
  "env \<Rightarrow> 'p world \<Rightarrow> string \<Rightarrow> string \<Rightarrow> string \<Rightarrow> image_result \<times> 'p world" where
  "fetch_and_store e w u fileName webpFileName =
     (let w1 = w\<lparr>fetched := fetched w @ [u]\<rparr> in
      case fetch e u of
        NetworkError \<Rightarrow> (null_result, w1)
      | Response ok body \<Rightarrow>
          if \<not> ok then (null_result, w1)
          else
            (let w2 = ensure_dir (ensure_dir (ensure_dir w1 publicImagesDir) distImagesDir) metaDir
             in case writeFileSync w2 (path_join publicImagesDir fileName) (Binary body) of
                  None \<Rightarrow> (null_result, w2)
                | Some w3 \<Rightarrow>
                    (case writeFileSync w3 (path_join distImagesDir fileName) (Binary body) of
                       None \<Rightarrow> (null_result, w3)
                     | Some w4 \<Rightarrow> convert_and_measure e w4 fileName webpFileName)))"

definition downloadAndConvertImage ::
  "env \<Rightarrow> 'p world \<Rightarrow> string option \<Rightarrow> image_result \<times> 'p world" where
  "downloadAndConvertImage e w imageUrl =
     (if not_local imageUrl then (\<lparr>localPath = imageUrl, dominantColor = None\<rparr>, w)
      else case imageUrl of
        None \<Rightarrow> (\<lparr>localPath = imageUrl, dominantColor = None\<rparr>, w)
      | Some u \<Rightarrow>
          (case url_pathname e u of
             None \<Rightarrow> (null_result, w)
           | Some pathname \<Rightarrow>
               (let fileName = basename pathname;
                    webpFileName = replace_ext fileName
                in if existsSync w (path_join publicImagesDir webpFileName)
                   then cache_hit e w webpFileName
                   else fetch_and_store e w u fileName webpFileName)))"

subsection \<open>\<open>downloadImage\<close> (\<open>src/lib/wordpress.js\<close>)\<close>

text \<open>
  \<open>palette.Vibrant?.hex || palette.DarkVibrant?.hex || palette.Muted?.hex ||
  palette.DarkMuted?.hex || null\<close>
\<close>

fun first_truthy :: "string option list \<Rightarrow> string option" where
  "first_truthy [] = None"
| "first_truthy (v # vs) = (if truthy v then v else first_truthy vs)"

definition vibrant_color :: "env \<Rightarrow> 'p world \<Rightarrow> string \<Rightarrow> string option" where
  "vibrant_color e w p =
     (case read_binary w p of
        None \<Rightarrow> None
      | Some bs \<Rightarrow>
          (case vibrant e bs of
             None \<Rightarrow> None
           | Some pal \<Rightarrow>
               first_truthy (map (map_option swatch_hex)
                 [Vibrant pal, DarkVibrant pal, Muted pal, DarkMuted pal])))"

definition downloadImage ::
  "env \<Rightarrow> 'p world \<Rightarrow> string option \<Rightarrow> image_result \<times> 'p world" where
  "downloadImage e w imageUrl =
     (if not_local imageUrl then (\<lparr>localPath = imageUrl, dominantColor = None\<rparr>, w)
      else case imageUrl of
        None \<Rightarrow> (\<lparr>localPath = imageUrl, dominantColor = None\<rparr>, w)
      | Some u \<Rightarrow>
          (let w1 = w\<lparr>fetched := fetched w @ [u]\<rparr> in
           case fetch e u of
             NetworkError \<Rightarrow> (null_result, w1)
           | Response ok body \<Rightarrow>
               if \<not> ok then (null_result, w1)
               else
                 (case url_pathname e u of
                    None \<Rightarrow> (null_result, w1)
                  | Some pathname \<Rightarrow>
                      (let fileName = basename pathname;
                           w2 = ensure_dir (ensure_dir w1 publicImagesDir) distImagesDir;
                           publicImagePath = path_join publicImagesDir fileName
                       in case writeFileSync w2 publicImagePath (Binary body) of
                            None \<Rightarrow> (null_result, w2)
                          | Some w3 \<Rightarrow>
                              (case writeFileSync w3 (path_join distImagesDir fileName)
                                      (Binary body) of
                                 None \<Rightarrow> (null_result, w3)
                               | Some w4 \<Rightarrow>
                                   (\<lparr>localPath = Some (''/images/'' @ fileName),
                                     dominantColor = vibrant_color e w4 publicImagePath\<rparr>,
                                    w4))))))"

section \<open>Regular expressions of the content transformer\<close>

text \<open>
  Each regular expression of the source is modelled by a function that decides whether
  it matches at the start of a string, and by a scan that tries every position from
  left to right and resumes after a match, as \<open>matchAll\<close> and \<open>replace\<close> with the
  \<open>g\<close> flag do. The first argument of a scan counts the characters still covered by
  the last match.
\<close>

definition dq :: char where "dq = CHR 0x22"

definition ci_prefix :: "string \<Rightarrow> string \<Rightarrow> bool" where
  "ci_prefix pat s = (length pat \<le> length s \<and> ci_eq (take (length pat) s) pat)"

definition ci_suffix :: "string \<Rightarrow> string \<Rightarrow> bool" where
  "ci_suffix pat s = (length pat \<le> length s \<and> ci_eq (drop (length s - length pat) s) pat)"

text \<open>\<open>\s\<close> on code units below 256: tab, line feed, vertical tab, form feed, carriage
  return, space and no-break space.\<close>

definition is_space :: "char \<Rightarrow> bool" where
  "is_space c = ((of_char c :: nat) \<in> {9, 10, 11, 12, 13, 32, 160})"

text \<open>
  \<open>/src="(https?:\/\/[^"]*\.(jpg|jpeg|png|gif|webp|JPG|JPEG|PNG|GIF|WEBP))"/gi\<close>.
  The class \<open>[^"]\<close> cannot pass a quote, so a match ends at the first quote after
  \<open>://\<close>, and the text before that quote must end in a dot and one of the extensions.
  The result is the whole match and the first group.
\<close>

definition image_exts :: "string list" where
  "image_exts = [''jpg'', ''jpeg'', ''png'', ''gif'', ''webp'', ''JPG'', ''JPEG'', ''PNG'', ''GIF'', ''WEBP'']"

definition ends_with_ext :: "string \<Rightarrow> bool" where
  "ends_with_ext seg = list_ex (\<lambda>ext. ci_suffix (CHR ''.'' # ext) seg) image_exts"

definition scheme_length :: "string \<Rightarrow> nat option" where
  "scheme_length t =
     (if ci_prefix ''https://'' t then Some 8
      else if ci_prefix ''http://'' t then Some 7
      else None)"

definition match_image_at :: "string \<Rightarrow> (string \<times> string) option" where
  "match_image_at s =
     (if \<not> ci_prefix (''src='' @ [dq]) s then None
      else
        (let t = drop 5 s in
         case scheme_length t of
           None \<Rightarrow> None
         | Some k \<Rightarrow>
             (let seg = takeWhile (\<lambda>c. c \<noteq> dq) (drop k t) in
              if length seg < length (drop k t) \<and> ends_with_ext seg
              then Some (take (5 + k + length seg + 1) s, take (k + length seg) t)
              else None)))"

fun matchAll_image :: "nat \<Rightarrow> string \<Rightarrow> (string \<times> string) list" where
  "matchAll_image _ [] = []"
| "matchAll_image (Suc k) (c # cs) = matchAll_image k cs"
| "matchAll_image 0 (c # cs) =
     (case match_image_at (c # cs) of
        Some (fullMatch, imageUrl) \<Rightarrow> (fullMatch, imageUrl) # matchAll_image (length fullMatch - 1) cs
      | None \<Rightarrow> matchAll_image 0 cs)"

text \<open>
  \<open>/\s*NAME="[^"]*"/gi\<close> for an attribute name: the longest run of white space, the
  name in any letter case, \<open>="\<close>, and everything up to the next quote. The result
  is the length of the match.
\<close>

definition match_attr_at :: "string \<Rightarrow> string \<Rightarrow> nat option" where
  "match_attr_at name s =
     (let ws = takeWhile is_space s;
          t = drop (length ws) s;
          opening = name @ ''='' @ [dq]
      in if \<not> ci_prefix opening t then None
         else
           (let v = takeWhile (\<lambda>c. c \<noteq> dq) (drop (length opening) t) in
            if length v < length (drop (length opening) t)
            then Some (length ws + length opening + length v + 1)
            else None))"

text \<open>\<open>content.replace(/\s*NAME="[^"]*"/gi, '')\<close>\<close>

fun remove_attr :: "string \<Rightarrow> nat \<Rightarrow> string \<Rightarrow> string" where
  "remove_attr name _ [] = []"
| "remove_attr name (Suc k) (c # cs) = remove_attr name k cs"
| "remove_attr name 0 (c # cs) =
     (case match_attr_at name (c # cs) of
        Some len \<Rightarrow> remove_attr name (len - 1) cs
      | None \<Rightarrow> c # remove_attr name 0 cs)"

text \<open>\<open>excerpt.replace(/<[^>]*>/g, '')\<close>: the length of a tag starting here, if any.\<close>

definition match_tag_at :: "string \<Rightarrow> nat option" where
  "match_tag_at s =
     (case s of
        [] \<Rightarrow> None
      | c # cs \<Rightarrow>
          if c = CHR ''<'' \<and> CHR ''>'' \<in> set cs
          then Some (length (takeWhile (\<lambda>x. x \<noteq> CHR ''>'') cs) + 2)
          else None)"

fun remove_tags :: "nat \<Rightarrow> string \<Rightarrow> string" where
  "remove_tags _ [] = []"
| "remove_tags (Suc k) (c # cs) = remove_tags k cs"
| "remove_tags 0 (c # cs) =
     (case match_tag_at (c # cs) of
        Some len \<Rightarrow> remove_tags (len - 1) cs
      | None \<Rightarrow> c # remove_tags 0 cs)"

text \<open>\<open>String.prototype.trim\<close>\<close>

definition trim :: "string \<Rightarrow> string" where
  "trim s = rev (dropWhile is_space (rev (dropWhile is_space s)))"

text \<open>
  \<open>content.replace(pattern, replacement)\<close> with a string pattern: the first occurrence
  of the pattern is replaced, and in the replacement \<open>$$\<close> stands for a dollar sign,
  \<open>$&\<close> for the matched text, \<open>$`\<close> for the text before the match and \<open>$'\<close> for
  the text after it. A string pattern has no groups, so \<open>$1\<close> and the like are
  literal.
\<close>

fun get_substitution :: "string \<Rightarrow> string \<Rightarrow> string \<Rightarrow> string \<Rightarrow> string" where
  "get_substitution matched preceding following (c # d # cs) =
     (if c = CHR ''$'' \<and> d = CHR ''$'' then CHR ''$'' # get_substitution matched preceding following cs
      else if c = CHR ''$'' \<and> d = CHR ''&'' then matched @ get_substitution matched preceding following cs
      else if c = CHR ''$'' \<and> d = CHR 0x60 then preceding @ get_substitution matched preceding following cs
      else if c = CHR ''$'' \<and> d = CHR 0x27 then following @ get_substitution matched preceding following cs
      else c # get_substitution matched preceding following (d # cs))"
| "get_substitution matched preceding following cs = cs"

fun replace_first :: "string \<Rightarrow> string \<Rightarrow> string \<Rightarrow> string \<Rightarrow> string" where
  "replace_first preceding [] pat repl =
     (if pat = [] then get_substitution pat preceding [] repl else [])"
| "replace_first preceding (c # cs) pat repl =
     (if prefix pat (c # cs)
      then get_substitution pat preceding (drop (length pat) (c # cs)) repl @ drop (length pat) (c # cs)
      else c # replace_first (preceding @ [c]) cs pat repl)"

section \<open>Content records\<close>

text \<open>
  A post as the GraphQL query returns it. Every field may be missing (\<open>null\<close> or
  \<open>undefined\<close>), at every level of nesting. Field names carry a prefix because record
  fields share one name space.
\<close>

record wp_term =
  term_name :: string
  term_slug :: string

record wp_media_details =
  md_width :: "int option"
  md_height :: "int option"

record wp_media_node =
  sourceUrl :: "string option"
  altText :: "string option"
  mediaDetails :: "wp_media_details option"

record wp_post =
  wp_id :: "string option"
  wp_slug :: "string option"
  wp_title :: "string option"
  wp_content :: "string option"
  wp_excerpt :: "string option"
  wp_date :: "string option"
  wp_featuredImage :: "wp_media_node option option"
  wp_author :: "string option option option"
  wp_categories :: "wp_term list option option"
  wp_tags :: "wp_term list option option"

text \<open>
  In \<open>wp_featuredImage\<close> the outer option is \<open>featuredImage\<close> and the inner one its
  \<open>node\<close>; in \<open>wp_author\<close> the three levels are \<open>author\<close>, \<open>node\<close> and \<open>name\<close>;
  in \<open>wp_categories\<close> and \<open>wp_tags\<close> they are the connection and its \<open>nodes\<close>.
\<close>

text \<open>The object that \<open>transformWordPressPost\<close> returns; \<open>pubDate\<close> keeps the
  argument of \<open>new Date(...)\<close>.\<close>

record post_data =
  title :: "string option"
  description :: string
  pubDate :: "string option"
  heroImage :: "string option"
  imageWidth :: "int option"
  imageHeight :: "int option"
  heroColor :: "string option"
  author :: "string option"
  categories :: "wp_term list"
  tags :: "wp_term list"
  wpId :: "string option"

record astro_post =
  post_id :: "string option"
  post_slug :: "string option"
  post_data :: post_data
  post_content :: "string option"

text \<open>Optional chaining \<open>a?.b\<close> and the defaults \<open>x || null\<close>, \<open>x || []\<close>.\<close>

definition chain :: "'a option \<Rightarrow> ('a \<Rightarrow> 'b option) \<Rightarrow> 'b option" where
  "chain a f = (case a of None \<Rightarrow> None | Some x \<Rightarrow> f x)"

definition number_or_null :: "int option \<Rightarrow> int option" where
  "number_or_null v = (case v of None \<Rightarrow> None | Some n \<Rightarrow> if n = 0 then None else Some n)"

definition string_or_null :: "string option \<Rightarrow> string option" where
  "string_or_null v = (if truthy v then v else None)"

definition list_or_empty :: "'a list option \<Rightarrow> 'a list" where
  "list_or_empty v = (case v of None \<Rightarrow> [] | Some xs \<Rightarrow> xs)"

section \<open>Content transformer (\<open>transformWordPressPost\<close>)\<close>

text \<open>
  The loop \<open>for (const [fullMatch, imageUrl] of images)\<close>: each match found in the
  original content is resolved with \<open>downloadImage\<close> and its first occurrence in the
  current content is replaced.
\<close>

fun replace_images ::
  "env \<Rightarrow> 'p world \<Rightarrow> string \<Rightarrow> (string \<times> string) list \<Rightarrow> string \<times> 'p world" where
  "replace_images e w content [] = (content, w)"
| "replace_images e w content ((fullMatch, imageUrl) # images) =
     (case downloadImage e w (Some imageUrl) of
        (imageResult, w1) \<Rightarrow>
          if truthy (localPath imageResult)
          then replace_images e w1
                 (replace_first [] content fullMatch
                    (''src='' @ [dq] @ the (localPath imageResult) @ [dq])) images
          else replace_images e w1
                 (replace_first [] content fullMatch (''src='' @ [dq, dq])) images)"

definition strip_attributes :: "string \<Rightarrow> string" where
  "strip_attributes content =
     remove_attr ''height'' 0 (remove_attr ''width'' 0
       (remove_attr ''sizes'' 0 (remove_attr ''srcset'' 0 content)))"

text \<open>The block \<open>if (content) { ... }\<close>: the body markup of the returned post.\<close>

definition rewrite_content :: "env \<Rightarrow> 'p world \<Rightarrow> string option \<Rightarrow> string option \<times> 'p world" where
  "rewrite_content e w content =
     (case content of
        None \<Rightarrow> (None, w)
      | Some c \<Rightarrow>
          if c = [] then (Some c, w)
          else (case replace_images e w c (matchAll_image 0 c) of
                  (c1, w1) \<Rightarrow> (Some (strip_attributes c1), w1)))"

definition transformWordPressPost :: "env \<Rightarrow> 'p world \<Rightarrow> wp_post \<Rightarrow> astro_post \<times> 'p world" where
  "transformWordPressPost e w wpPost =
     (let node = chain (wp_featuredImage wpPost) (\<lambda>f. f);
          originalHeroImage = string_or_null (chain node sourceUrl);
          (imageResult, w1) =
             (if truthy originalHeroImage then downloadImage e w originalHeroImage
              else (null_result, w));
          details = chain node mediaDetails;
          excerpt = (if truthy (wp_excerpt wpPost)
                     then trim (remove_tags 0 (the (wp_excerpt wpPost))) else []);
          (content, w2) = rewrite_content e w1 (wp_content wpPost)
      in (\<lparr>post_id = wp_slug wpPost,
           post_slug = wp_slug wpPost,
           post_data = \<lparr>title = wp_title wpPost,
                         description = excerpt,
                         pubDate = wp_date wpPost,
                         heroImage = localPath imageResult,
                         imageWidth = number_or_null (chain details md_width),
                         imageHeight = number_or_null (chain details md_height),
                         heroColor = dominantColor imageResult,
                         author = chain (chain (wp_author wpPost) (\<lambda>a. a)) (\<lambda>n. n),
                         categories = list_or_empty (chain (wp_categories wpPost) (\<lambda>c. c)),
                         tags = list_or_empty (chain (wp_tags wpPost) (\<lambda>c. c)),
                         wpId = wp_id wpPost\<rparr>,
           post_content = content\<rparr>, w2))"

section \<open>Content fetcher and orchestrators\<close>

text \<open>
  What the GraphQL request of \<open>fetchWordPressPosts\<close> can come back with: a rejected
  \<open>fetch\<close>, a response that is not \<open>ok\<close>, a body with \<open>errors\<close>, or a body whose
  \<open>data?.posts?.nodes\<close> is a list or is missing.
\<close>

datatype graphql_result =
  Unreachable | HttpError nat | GraphqlErrors "string list" | Data "wp_post list option"

definition fetchWordPressPosts :: "graphql_result \<Rightarrow> wp_post list" where
  "fetchWordPressPosts res =
     (case res of
        Unreachable \<Rightarrow> []
      | HttpError status \<Rightarrow> []
      | GraphqlErrors errors \<Rightarrow> []
      | Data nodes \<Rightarrow> list_or_empty nodes)"

text \<open>
  \<open>getWordPressPosts\<close>: every post is transformed. The transformations are started
  together by \<open>Promise.all\<close>; the model runs them one after the other, in order.
\<close>

fun transform_all :: "env \<Rightarrow> 'p world \<Rightarrow> wp_post list \<Rightarrow> astro_post list \<times> 'p world" where
  "transform_all e w [] = ([], w)"
| "transform_all e w (p # ps) =
     (case transformWordPressPost e w p of
        (q, w1) \<Rightarrow> (case transform_all e w1 ps of (qs, w2) \<Rightarrow> (q # qs, w2)))"

definition getWordPressPosts ::
  "env \<Rightarrow> 'p world \<Rightarrow> graphql_result \<Rightarrow> astro_post list \<times> 'p world" where
  "getWordPressPosts e w res = transform_all e w (fetchWordPressPosts res)"

definition dataDir :: string where "dataDir = ''src/data''"
definition dataFile :: string where "dataFile = ''src/data/posts.json''"

text \<open>
  \<open>syncData\<close> of \<open>scripts/sync-data.js\<close>, with the exit code of the process: 0 when
  the function returns, 1 when the \<open>catch\<close> block calls \<open>process.exit(1)\<close>.
\<close>

definition syncData ::
  "env \<Rightarrow> astro_post world \<Rightarrow> graphql_result \<Rightarrow> nat \<times> astro_post world" where
  "syncData e w res =
     (case getWordPressPosts e w res of
        (posts, w1) \<Rightarrow>
          (let w2 = ensure_dir w1 dataDir in
           case writeFileSync w2 dataFile (PostsJson posts) of
             None \<Rightarrow> (1, w2)
           | Some w3 \<Rightarrow> (0, w3)))"

text \<open>
  \<open>syncImages\<close> of the image sync script. The counters are \<open>processed\<close>,
  \<open>skipped\<close> and \<open>failed\<close>.
\<close>

record stats =
  processed :: nat
  skipped :: nat
  failed :: nat

fun convert_all :: "env \<Rightarrow> 'p world \<Rightarrow> string list \<Rightarrow> 'p world" where
  "convert_all e w [] = w"
| "convert_all e w (imageUrl # urls) =
     convert_all e (snd (downloadAndConvertImage e w (Some imageUrl))) urls"

definition count_hero :: "image_result \<Rightarrow> stats \<Rightarrow> stats" where
  "count_hero result st =
     (if truthy (localPath result) \<and> includes_str (the (localPath result)) ''/images/''
      then st\<lparr>processed := processed st + 1\<rparr>
      else if truthy (localPath result) then st\<lparr>skipped := skipped st + 1\<rparr>
      else st\<lparr>failed := failed st + 1\<rparr>)"

fun sync_posts :: "env \<Rightarrow> 'p world \<Rightarrow> stats \<Rightarrow> wp_post list \<Rightarrow> stats \<times> 'p world" where
  "sync_posts e w st [] = (st, w)"
| "sync_posts e w st (post # posts) =
     (let heroImage = chain (chain (wp_featuredImage post) (\<lambda>f. f)) sourceUrl;
          (st1, w1) =
             (if truthy heroImage
              then (case downloadAndConvertImage e w heroImage of
                      (result, w') \<Rightarrow> (count_hero result st, w'))
              else (st, w));
          w2 = (if truthy (wp_content post)
                then convert_all e w1 (map snd (matchAll_image 0 (the (wp_content post))))
                else w1)
      in sync_posts e w2 st1 posts)"

definition syncImages ::
  "env \<Rightarrow> 'p world \<Rightarrow> graphql_result \<Rightarrow> nat \<times> stats \<times> 'p world" where
  "syncImages e w res =
     (let posts = fetchWordPressPosts res;
          zero = \<lparr>processed = 0, skipped = 0, failed = 0\<rparr>
      in if length posts = 0 then (1, zero, w)
         else (case sync_posts e w zero posts of (st, w1) \<Rightarrow> (0, st, w1)))"

section \<open>Concrete environments\<close>

text \<open>
  The pathname and the host of an \<open>http\<close> or \<open>https\<close> URL, without the normalisations of
  the URL standard (no percent-encoding, no dot segments, no user information): the
  host runs up to the first \<open>/\<close>, \<open>?\<close> or \<open>#\<close>, the pathname from there up to
  the first \<open>?\<close> or \<open>#\<close>. These are used to evaluate the scripts on concrete URLs.
\<close>

definition after_scheme :: "string \<Rightarrow> string option" where
  "after_scheme u =
     (if prefix ''http://'' u then Some (drop 7 u)
      else if prefix ''https://'' u then Some (drop 8 u)
      else None)"

definition url_host :: "string \<Rightarrow> string option" where
  "url_host u = map_option (takeWhile (\<lambda>c. c \<notin> set ''/?#'')) (after_scheme u)"

definition simple_pathname :: "string \<Rightarrow> string option" where
  "simple_pathname u =
     (case after_scheme u of
        None \<Rightarrow> None
      | Some rest \<Rightarrow>
          (let p = takeWhile (\<lambda>c. c \<notin> set ''?#'') (dropWhile (\<lambda>c. c \<notin> set ''/?#'') rest)
           in Some (if p = [] then ''/'' else p)))"

definition demo_palette :: palette where
  "demo_palette = \<lparr>Vibrant = None, DarkVibrant = Some \<lparr>r = 26, g = 43, b = 60\<rparr>,
                    Muted = None, DarkMuted = None\<rparr>"

text \<open>
  Every download succeeds with three bytes, every conversion and decoding succeeds; the
  shell rejects every word that it would have to expand.
\<close>

definition good_env :: env where
  "good_env = \<lparr>fetch = (\<lambda>u. Response True [1, 2, 3]),
               url_pathname = simple_pathname,
               cwebp = (\<lambda>bs. Some (0 # bs)),
               sh_word = (\<lambda>p. None),
               sharp_stats = (\<lambda>bs. Some \<lparr>r = 18, g = 171, b = 5\<rparr>),
               vibrant = (\<lambda>bs. Some demo_palette)\<rparr>"

text \<open>The image server answers 404.\<close>

definition offline_env :: env where
  "offline_env = good_env\<lparr>fetch := (\<lambda>u. Response False [])\<rparr>"

text \<open>The \<open>cwebp\<close> tool is not installed.\<close>

definition no_cwebp_env :: env where
  "no_cwebp_env = good_env\<lparr>cwebp := (\<lambda>bs. None)\<rparr>"

definition empty_world :: "'p world" where
  "empty_world = \<lparr>fs = (\<lambda>p. None), fetched = [], transcoded = []\<rparr>"

text \<open>A post with no optional field, and a world in which an earlier run has published one post.\<close>

definition bare_post :: wp_post where
  "bare_post = \<lparr>wp_id = Some ''cG9zdDox'', wp_slug = Some ''hello-moon'', wp_title = Some ''Hello Moon'',
       wp_content = None, wp_excerpt = None, wp_date = Some ''2024-01-01T00:00:00'',
       wp_featuredImage = None, wp_author = None, wp_categories = None, wp_tags = None\<rparr>"

definition old_post :: astro_post where
  "old_post = \<lparr>post_id = Some ''hello-moon'', post_slug = Some ''hello-moon'',
      post_data = \<lparr>title = Some ''Hello Moon'', description = ''A first look.'',
         pubDate = Some ''2024-01-01T00:00:00'', heroImage = Some ''/images/moon.jpg'',
         imageWidth = Some 800, imageHeight = Some 600, heroColor = Some ''#1a2b3c'',
         author = Some ''Ada'', categories = [], tags = [], wpId = Some ''cG9zdDox''\<rparr>,
      post_content = Some ''<p>Hello</p>''\<rparr>"

definition published_world :: "astro_post world" where
  "published_world = empty_world\<lparr>fs := [dataDir \<mapsto> Dir, dataFile \<mapsto> File (PostsJson [old_post])]\<rparr>"

section \<open>Theorems\<close>

lemma hex_digit_table: "\<forall>d \<in> set [0..<16]. lower_hex (hex_digit d) \<and> digit_value (hex_digit d) = d"
  by code_simp

lemma hex_digit_lower: "d < 16 \<Longrightarrow> lower_hex (hex_digit d)"
  using hex_digit_table by simp

lemma digit_value_hex_digit: "d < 16 \<Longrightarrow> digit_value (hex_digit d) = d"
  using hex_digit_table by simp

lemma unat_byte: "unat (x :: 8 word) < 256"
  using unsigned_less [of x] by simp

lemma toString16_small: "n < 16 \<Longrightarrow> toString16 n = [hex_digit n]"
  by (simp add: toString16.simps)

lemma toString16_step:
  assumes "d < 16" and "1 \<le> q"
  shows "toString16 (16 * q + d) = toString16 q @ [hex_digit d]"
proof -
  from assms have "\<not> 16 * q + d < 16" "(16 * q + d) div 16 = q" "(16 * q + d) mod 16 = d"
    by simp_all
  then show ?thesis by (subst toString16.simps) simp
qed

lemma toString16_byte:
  assumes "16 \<le> n" "n < 256"
  shows "toString16 n = [hex_digit (n div 16), hex_digit (n mod 16)]"
proof -
  from assms have "n div 16 < 16" by simp
  with assms show ?thesis
    by (subst toString16.simps) (simp add: toString16_small)
qed

lemma hex_digit_0: "hex_digit 0 = CHR ''0''"
  by (simp add: hex_digit_def)

lemma channel_hex_spec: "channel_hex (unat x) = spec_two_digits x"
proof (cases "unat x < 16")
  case True
  then show ?thesis
    by (simp add: channel_hex_def toString16_small spec_two_digits_def hex_digit_0)
next
  case False
  then have "16 \<le> unat x" by simp
  from toString16_byte [OF this unat_byte] show ?thesis
    by (simp add: channel_hex_def spec_two_digits_def)
qed

lemma rgb_to_hex_spec: "rgb_to_hex d = spec_hex_color d"
  by (simp add: rgb_to_hex_def spec_hex_color_def channel_hex_spec)

lemma swatch_number:
  fixes x y z :: nat
  assumes "x < 256" "y < 256" "z < 256"
  shows "toString16 (16777216 + 65536 * x + 256 * y + z)
     = [hex_digit 1, hex_digit (x div 16), hex_digit (x mod 16), hex_digit (y div 16),
        hex_digit (y mod 16), hex_digit (z div 16), hex_digit (z mod 16)]"
proof -
  define q1 where "q1 = 16 * 1 + x div 16"
  define q2 where "q2 = 16 * q1 + x mod 16"
  define q3 where "q3 = 16 * q2 + y div 16"
  define q4 where "q4 = 16 * q3 + y mod 16"
  define q5 where "q5 = 16 * q4 + z div 16"
  define q6 where "q6 = 16 * q5 + z mod 16"
  have b: "x div 16 < 16" "x mod 16 < 16" "y div 16 < 16" "y mod 16 < 16" "z div 16 < 16" "z mod 16 < 16"
    using assms by simp_all
  have p: "1 \<le> q1" "1 \<le> q2" "1 \<le> q3" "1 \<le> q4" "1 \<le> q5"
    by (simp_all add: q1_def q2_def q3_def q4_def q5_def)
  have "toString16 q1 = toString16 1 @ [hex_digit (x div 16)]"
    unfolding q1_def by (rule toString16_step [OF b(1)]) simp
  then have 1: "toString16 q1 = [hex_digit 1, hex_digit (x div 16)]"
    by (simp add: toString16_small)
  have 2: "toString16 q2 = toString16 q1 @ [hex_digit (x mod 16)]"
    unfolding q2_def by (rule toString16_step [OF b(2) p(1)])
  have 3: "toString16 q3 = toString16 q2 @ [hex_digit (y div 16)]"
    unfolding q3_def by (rule toString16_step [OF b(3) p(2)])
  have 4: "toString16 q4 = toString16 q3 @ [hex_digit (y mod 16)]"
    unfolding q4_def by (rule toString16_step [OF b(4) p(3)])
  have 5: "toString16 q5 = toString16 q4 @ [hex_digit (z div 16)]"
    unfolding q5_def by (rule toString16_step [OF b(5) p(4)])
  have 6: "toString16 q6 = toString16 q5 @ [hex_digit (z mod 16)]"
    unfolding q6_def by (rule toString16_step [OF b(6) p(5)])
  have "16777216 + 65536 * x + 256 * y + z = q6"
    by (simp add: q1_def q2_def q3_def q4_def q5_def q6_def)
  then show ?thesis
    by (simp only: 1 2 3 4 5 6) simp
qed

lemma swatch_hex_spec [code]: "swatch_hex d = spec_hex_color d"
  using swatch_number [OF unat_byte unat_byte unat_byte, of "r d" "g d" "b d"]
  by (simp add: swatch_hex_def spec_hex_color_def spec_two_digits_def)

lemma spec_two_digits_value:
  "\<exists>h l. spec_two_digits x = [h, l] \<and> lower_hex h \<and> lower_hex l \<and> hex_value [h, l] = unat x"
proof -
  have b: "unat x div 16 < 16" "unat x mod 16 < 16"
    using unat_byte [of x] by simp_all
  have "hex_value [hex_digit (unat x div 16), hex_digit (unat x mod 16)] = unat x"
    by (simp add: hex_value_def digit_value_hex_digit b)
  with b show ?thesis
    by (simp add: spec_two_digits_def hex_digit_lower)
qed

lemma first_truthy_swatch:
  "first_truthy (map (map_option swatch_hex) xs) = Some c
     \<Longrightarrow> \<exists>d. Some d \<in> set xs \<and> c = spec_hex_color d"
  by (induction xs) (auto simp: truthy_def swatch_hex_spec split: if_splits option.splits)

lemma vibrant_color_format:
  assumes a: "vibrant_color e w p = Some c"
  shows "\<exists>bs pal d. vibrant e bs = Some pal
            \<and> Some d \<in> set [Vibrant pal, DarkVibrant pal, Muted pal, DarkMuted pal]
            \<and> c = spec_hex_color d"
proof (cases "read_binary w p")
  case None
  with a show ?thesis by (simp add: vibrant_color_def)
next
  case (Some bs)
  show ?thesis
  proof (cases "vibrant e bs")
    case None
    with a Some show ?thesis by (simp add: vibrant_color_def)
  next
    case (Some pal)
    with a \<open>read_binary w p = Some bs\<close>
    have "first_truthy (map (map_option swatch_hex)
        [Vibrant pal, DarkVibrant pal, Muted pal, DarkMuted pal]) = Some c"
      by (simp add: vibrant_color_def del: first_truthy.simps list.map)
    then obtain d where "Some d \<in> set [Vibrant pal, DarkVibrant pal, Muted pal, DarkMuted pal]"
        "c = spec_hex_color d"
      using first_truthy_swatch by blast
    with Some show ?thesis by blast
  qed
qed

lemma extractColorAt_format:
  "extractColorAt e w p = Some c \<Longrightarrow> \<exists>bs d. sharp_stats e bs = Some d \<and> c = spec_hex_color d"
  by (auto simp: extractColorAt_def extractDominantColor_def rgb_to_hex_spec split: option.splits)

lemma cache_hit_color:
  "dominantColor (fst (cache_hit e w n)) = Some c
     \<Longrightarrow> \<exists>bs d. sharp_stats e bs = Some d \<and> c = spec_hex_color d"
  by (auto simp: cache_hit_def Let_def null_result_def split: if_splits option.splits
      dest: extractColorAt_format)

lemma convert_and_measure_color:
  "dominantColor (fst (convert_and_measure e w n m)) = Some c
     \<Longrightarrow> \<exists>bs d. sharp_stats e bs = Some d \<and> c = spec_hex_color d"
  by (auto simp: convert_and_measure_def Let_def null_result_def split: if_splits option.splits prod.splits
      dest: extractColorAt_format)

lemma fetch_and_store_color:
  "dominantColor (fst (fetch_and_store e w u n m)) = Some c
     \<Longrightarrow> \<exists>bs d. sharp_stats e bs = Some d \<and> c = spec_hex_color d"
  by (auto simp: fetch_and_store_def Let_def null_result_def
      split: if_splits option.splits response.splits dest: convert_and_measure_color)

lemma downloadAndConvertImage_color:
  "dominantColor (fst (downloadAndConvertImage e w u)) = Some c
     \<Longrightarrow> \<exists>bs d. sharp_stats e bs = Some d \<and> c = spec_hex_color d"
  by (auto simp: downloadAndConvertImage_def Let_def null_result_def
      split: if_splits option.splits dest: cache_hit_color fetch_and_store_color)

lemma downloadImage_color:
  fixes w :: "'p world"
  assumes "dominantColor (fst (downloadImage e w u)) = Some c"
  shows "\<exists>bs pal d. vibrant e bs = Some pal
            \<and> Some d \<in> set [Vibrant pal, DarkVibrant pal, Muted pal, DarkMuted pal]
            \<and> c = spec_hex_color d"
proof -
  from assms have "\<exists>(w' :: 'p world) p. vibrant_color e w' p = Some c"
    by (auto simp: downloadImage_def Let_def null_result_def
        split: if_splits option.splits response.splits)
  then obtain w' :: "'p world" and p where "vibrant_color e w' p = Some c" by blast
  then show ?thesis by (rule vibrant_color_format)
qed

text \<open>
  C9. \<open>extractDominantColor\<close> answers null when decoding fails and otherwise \<open>#\<close>
  followed by exactly six lowercase hexadecimal digits: for each of the three channels
  of the dominant colour, in the order red, green, blue, the two digits whose value is
  that channel. A swatch of \<open>node-vibrant\<close> renders its channels in the same way.
  Every non-null colour that \<open>downloadAndConvertImage\<close> returns is this rendering of
  a dominant colour reported by \<open>sharp\<close>, and every non-null colour that
  \<open>downloadImage\<close> returns is this rendering of a swatch of a palette computed by
  \<open>node-vibrant\<close>.
\<close>

theorem color_format:
  "extractDominantColor None = None
   \<and> extractDominantColor (Some d) = Some (spec_hex_color d)
   \<and> swatch_hex d = spec_hex_color d
   \<and> (\<forall>c. dominantColor (fst (downloadAndConvertImage e w u)) = Some c
         \<longrightarrow> (\<exists>bs d'. sharp_stats e bs = Some d' \<and> c = spec_hex_color d'))
   \<and> (\<forall>c. dominantColor (fst (downloadImage e w u)) = Some c
         \<longrightarrow> (\<exists>bs pal d'. vibrant e bs = Some pal
                \<and> Some d' \<in> set [Vibrant pal, DarkVibrant pal, Muted pal, DarkMuted pal]
                \<and> c = spec_hex_color d'))
   \<and> (\<exists>h1 l1 h2 l2 h3 l3.
         spec_hex_color d = [CHR ''#'', h1, l1, h2, l2, h3, l3]
       \<and> list_all lower_hex [h1, l1, h2, l2, h3, l3]
       \<and> hex_value [h1, l1] = unat (r d)
       \<and> hex_value [h2, l2] = unat (g d)
       \<and> hex_value [h3, l3] = unat (b d))"
proof -
  obtain h1 l1 where 1: "spec_two_digits (r d) = [h1, l1]" "lower_hex h1" "lower_hex l1"
      "hex_value [h1, l1] = unat (r d)"
    using spec_two_digits_value [of "r d"] by blast
  obtain h2 l2 where 2: "spec_two_digits (g d) = [h2, l2]" "lower_hex h2" "lower_hex l2"
      "hex_value [h2, l2] = unat (g d)"
    using spec_two_digits_value [of "g d"] by blast
  obtain h3 l3 where 3: "spec_two_digits (b d) = [h3, l3]" "lower_hex h3" "lower_hex l3"
      "hex_value [h3, l3] = unat (b d)"
    using spec_two_digits_value [of "b d"] by blast
  have s: "spec_hex_color d = [CHR ''#'', h1, l1, h2, l2, h3, l3]"
    by (simp add: spec_hex_color_def 1 2 3)
  have f: "\<exists>h1 l1 h2 l2 h3 l3.
         spec_hex_color d = [CHR ''#'', h1, l1, h2, l2, h3, l3]
       \<and> list_all lower_hex [h1, l1, h2, l2, h3, l3]
       \<and> hex_value [h1, l1] = unat (r d)
       \<and> hex_value [h2, l2] = unat (g d)
       \<and> hex_value [h3, l3] = unat (b d)"
    using s 1 2 3 by (intro exI [of _ h1] exI [of _ l1] exI [of _ h2] exI [of _ l2] exI [of _ h3] exI [of _ l3]) simp
  have e: "extractDominantColor None = None" "extractDominantColor (Some d) = Some (spec_hex_color d)"
    by (simp_all add: extractDominantColor_def rgb_to_hex_spec)
  have c1: "\<forall>c. dominantColor (fst (downloadAndConvertImage e w u)) = Some c
         \<longrightarrow> (\<exists>bs d'. sharp_stats e bs = Some d' \<and> c = spec_hex_color d')"
    using downloadAndConvertImage_color by (intro allI impI)
  have c2: "\<forall>c. dominantColor (fst (downloadImage e w u)) = Some c
         \<longrightarrow> (\<exists>bs pal d'. vibrant e bs = Some pal
                \<and> Some d' \<in> set [Vibrant pal, DarkVibrant pal, Muted pal, DarkMuted pal]
                \<and> c = spec_hex_color d')"
    using downloadImage_color by (intro allI impI)
  from e swatch_hex_spec [of d] c1 c2 f show ?thesis
    by (intro conjI)
qed

theorem color_format_witness:
  "dominantColor (fst (downloadImage good_env (empty_world :: unit world)
       (Some ''http://site.local/img/rocket.jpg''))) = Some ''#1a2b3c''
   \<and> dominantColor (fst (downloadAndConvertImage good_env (empty_world :: unit world)
       (Some ''http://site.local/img/rocket.jpg''))) = Some ''#12ab05''
   \<and> (\<exists>d. ''#1a2b3c'' = spec_hex_color d) \<and> (\<exists>d. ''#12ab05'' = spec_hex_color d)"
proof -
  let ?u = "Some ''http://site.local/img/rocket.jpg''"
  have a: "dominantColor (fst (downloadImage good_env (empty_world :: unit world) ?u)) = Some ''#1a2b3c''"
    by code_simp
  have b: "dominantColor (fst (downloadAndConvertImage good_env (empty_world :: unit world) ?u))
      = Some ''#12ab05''"
    by code_simp
  note t = color_format [of "\<lparr>r = 0, g = 0, b = 0\<rparr>" good_env "empty_world :: unit world" ?u]
  from t a have "\<exists>d. ''#1a2b3c'' = spec_hex_color d" by blast
  moreover from t b have "\<exists>d. ''#12ab05'' = spec_hex_color d" by blast
  ultimately show ?thesis using a b by blast
qed











lemma includes_str_sublist: "includes_str s sub = sublist sub s"
  by (induction s) (auto simp: sublist_Cons_right)

text \<open>
  C4 as stated fails: the test is made on the whole URL string, so a URL whose host
  contains neither \<open>.local\<close> nor \<open>localhost\<close> is still fetched and stored when its
  path contains one of them.
\<close>

theorem pass_through_counterexample:
  "url_host ''https://cdn.example.com/my.local/a.jpg'' = Some ''cdn.example.com''
   \<and> \<not> includes_str ''cdn.example.com'' ''.local''
   \<and> \<not> includes_str ''cdn.example.com'' ''localhost''
   \<and> fetched (snd (downloadAndConvertImage good_env (empty_world :: unit world)
         (Some ''https://cdn.example.com/my.local/a.jpg'')))
       = [''https://cdn.example.com/my.local/a.jpg'']
   \<and> fetched (snd (downloadImage good_env (empty_world :: unit world)
         (Some ''https://cdn.example.com/my.local/a.jpg'')))
       = [''https://cdn.example.com/my.local/a.jpg'']
   \<and> localPath (fst (downloadImage good_env (empty_world :: unit world)
         (Some ''https://cdn.example.com/my.local/a.jpg''))) = Some ''/images/a.jpg''"
  by code_simp

text \<open>
  C4, amended. For an absent or empty URL, and for every URL string that contains
  neither \<open>.local\<close> nor \<open>localhost\<close> anywhere, both resolvers return the value
  unchanged with a null colour and leave the world (files, directories, fetch log,
  conversion log) as it was.
\<close>

theorem pass_through:
  assumes "\<forall>u. imageUrl = Some u \<longrightarrow> u = [] \<or> (\<not> sublist ''.local'' u \<and> \<not> sublist ''localhost'' u)"
  shows "downloadAndConvertImage e w imageUrl = (\<lparr>localPath = imageUrl, dominantColor = None\<rparr>, w)
       \<and> downloadImage e w imageUrl = (\<lparr>localPath = imageUrl, dominantColor = None\<rparr>, w)"
proof -
  from assms have "not_local imageUrl"
    by (cases imageUrl) (auto simp: not_local_def includes_str_sublist)
  then show ?thesis
    by (simp add: downloadAndConvertImage_def downloadImage_def)
qed

theorem pass_through_witness:
  "downloadAndConvertImage good_env (empty_world :: unit world) (Some ''https://images.example.com/a.jpg'')
     = (\<lparr>localPath = Some ''https://images.example.com/a.jpg'', dominantColor = None\<rparr>, empty_world)
   \<and> downloadImage offline_env (empty_world :: unit world) None
     = (\<lparr>localPath = None, dominantColor = None\<rparr>, empty_world)"
proof -
  have n: "\<not> includes_str ''https://images.example.com/a.jpg'' ''.local''
         \<and> \<not> includes_str ''https://images.example.com/a.jpg'' ''localhost''"
    by code_simp
  show ?thesis
    using pass_through [of "Some ''https://images.example.com/a.jpg''" good_env "empty_world :: unit world"]
      pass_through [of None offline_env "empty_world :: unit world"] n
    by (simp add: includes_str_sublist)
qed

lemma eligible_not_local:
  "sublist ''.local'' u \<or> sublist ''localhost'' u \<Longrightarrow> \<not> not_local (Some u)"
  by (auto simp: not_local_def includes_str_sublist)

lemma public_path_distinct:
  assumes "name \<noteq> []" "name \<noteq> ''meta''"
  shows "path_join publicImagesDir name \<noteq> publicImagesDir"
    "path_join publicImagesDir name \<noteq> distImagesDir"
    "path_join publicImagesDir name \<noteq> metaDir"
  using assms by (auto simp: path_join_def publicImagesDir_def distImagesDir_def metaDir_def)

lemma dist_path_distinct:
  assumes "name \<noteq> []"
  shows "path_join distImagesDir name \<noteq> publicImagesDir"
    "path_join distImagesDir name \<noteq> distImagesDir"
    "path_join distImagesDir name \<noteq> metaDir"
    "path_join distImagesDir name \<noteq> path_join publicImagesDir name'"
  using assms by (auto simp: path_join_def publicImagesDir_def distImagesDir_def metaDir_def)

lemma fs_ensure_dir: "q \<noteq> d \<Longrightarrow> fs (ensure_dir w d) q = fs w q"
  by (simp add: ensure_dir_def mkdirSync_def)

lemma ensure_dir_logs [simp]:
  "fetched (ensure_dir w d) = fetched w" "transcoded (ensure_dir w d) = transcoded w"
  by (simp_all add: ensure_dir_def mkdirSync_def)

lemma basename_no_slash: "CHR ''/'' \<notin> set (basename p)"
  unfolding basename_def set_rev using set_takeWhileD by fastforce

lemma replace_ext_no_slash: "CHR ''/'' \<notin> set n \<Longrightarrow> CHR ''/'' \<notin> set (replace_ext n)"
  by (induction n) auto

lemma path_join_inj: "m \<noteq> n \<Longrightarrow> path_join d m \<noteq> path_join d n"
  by (auto simp: path_join_def dest: arg_cong [where f = length])

lemma public_dist_distinct: "m \<noteq> [] \<Longrightarrow> path_join publicImagesDir m \<noteq> path_join distImagesDir n"
  by (auto simp: path_join_def publicImagesDir_def distImagesDir_def)

lemma meta_file_public:
  assumes "CHR ''/'' \<notin> set n"
  shows "path_join metaDir (m @ ''.json'') \<noteq> path_join publicImagesDir n"
proof
  assume "path_join metaDir (m @ ''.json'') = path_join publicImagesDir n"
  then have "n = ''meta/'' @ m @ ''.json''"
    by (auto simp: path_join_def metaDir_def publicImagesDir_def split: if_splits)
  with assms show False by simp
qed

lemma meta_file_dist: "path_join metaDir (m @ ''.json'') \<noteq> path_join distImagesDir n"
  by (auto simp: path_join_def metaDir_def distImagesDir_def)

lemma meta_file_dirs:
  "path_join metaDir (m @ ''.json'') \<noteq> metaDir"
  "path_join metaDir (m @ ''.json'') \<noteq> publicImagesDir"
  "path_join metaDir (m @ ''.json'') \<noteq> distImagesDir"
  by (auto simp: path_join_def metaDir_def distImagesDir_def publicImagesDir_def)


lemma replace_ext_changed: "replace_ext n \<noteq> n \<Longrightarrow> \<exists>stem. replace_ext n = stem @ ''.webp''"
proof (induction n)
  case Nil
  then show ?case by simp
next
  case (Cons c cs)
  show ?case
  proof (cases "is_ext (c # cs)")
    case True
    then have "replace_ext (c # cs) = [] @ ''.webp''" by simp
    then show ?thesis by blast
  next
    case False
    with Cons.prems have "replace_ext cs \<noteq> cs" by simp
    then obtain stem where "replace_ext cs = stem @ ''.webp''" using Cons.IH by blast
    with False have "replace_ext (c # cs) = (c # stem) @ ''.webp''" by simp
    then show ?thesis by blast
  qed
qed

lemma shell_plain_path:
  "shell_plain n \<Longrightarrow> shell_plain (path_join publicImagesDir n)"
  "shell_plain n \<Longrightarrow> shell_plain (path_join distImagesDir n)"
  by (simp_all add: path_join_def publicImagesDir_def distImagesDir_def shell_plain_def)

lemma read_binary_log [simp]:
  "read_binary (w\<lparr>transcoded := t\<rparr>) p = read_binary w p"
  "read_binary (w\<lparr>fetched := f\<rparr>) p = read_binary w p"
  by (simp_all add: read_binary_def)






lemma shell_plain_replace_ext: "shell_plain n \<Longrightarrow> shell_plain (replace_ext n)"
  by (induction n) (simp_all add: shell_plain_def)

lemma downloadImage_fetches:
  assumes "sublist ''.local'' u \<or> sublist ''localhost'' u"
  shows "fetched (snd (downloadImage e w (Some u))) = fetched w @ [u]"
  using eligible_not_local [OF assms]
  by (simp add: downloadImage_def Let_def writeFileSync_def
      split: response.splits option.splits)

lemma fresh_download:
  fixes w :: "'p world"
  assumes elig: "sublist ''.local'' u \<or> sublist ''localhost'' u"
    and path: "url_pathname e u = Some pathname"
    and n: "n = basename pathname" and m: "m = replace_ext n"
    and name: "n \<noteq> []" "n \<noteq> ''meta''"
    and plain: "shell_plain n"
    and ren: "m \<noteq> n"
    and fresh: "\<not> existsSync w (path_join publicImagesDir m)"
    and nodir: "fs w (path_join publicImagesDir n) \<noteq> Some Dir"
      "fs w (path_join distImagesDir n) \<noteq> Some Dir"
      "fs w (path_join distImagesDir m) \<noteq> Some Dir"
      "fs w (path_join metaDir (m @ ''.json'')) \<noteq> Some Dir"
    and dl: "fetch e u = Response True body"
    and tc: "cwebp e body = Some out"
  shows "\<exists>W. downloadAndConvertImage e w (Some u)
            = (\<lparr>localPath = Some (''/images/'' @ m),
                dominantColor = extractDominantColor (sharp_stats e out)\<rparr>, W)
          \<and> fs W (path_join publicImagesDir m) = Some (File (Binary out))
          \<and> fs W (path_join metaDir (m @ ''.json''))
              = Some (File (MetaJson (extractDominantColor (sharp_stats e out))))
          \<and> fs W metaDir \<noteq> None
          \<and> fetched W = fetched w @ [u]
          \<and> transcoded W = transcoded w @
                [(path_join publicImagesDir n, path_join publicImagesDir m),
                 (path_join distImagesDir n, path_join distImagesDir m)]"
proof -
  obtain stem where stem: "m = stem @ ''.webp''"
    using replace_ext_changed ren m by blast
  then have m0: "m \<noteq> []" "m \<noteq> ''meta''" by auto
  have ns: "CHR ''/'' \<notin> set n" "CHR ''/'' \<notin> set m"
    using basename_no_slash n m replace_ext_no_slash by auto
  note ne = public_path_distinct [OF name] public_path_distinct [OF m0]
    dist_path_distinct [OF name(1)] dist_path_distinct [OF m0(1)]
    path_join_inj [OF ren] path_join_inj [OF ren [symmetric]]
    meta_file_public [OF ns(1)] meta_file_public [OF ns(2)] meta_file_dist meta_file_dirs
    public_dist_distinct [OF m0(1)] public_dist_distinct [OF name(1)]
  let ?w1 = "w\<lparr>fetched := fetched w @ [u]\<rparr>"
  let ?w2 = "ensure_dir (ensure_dir (ensure_dir ?w1 publicImagesDir) distImagesDir) metaDir"
  have e2: "\<exists>y. fs ?w2 metaDir = Some y"
    by (simp add: ensure_dir_def mkdirSync_def existsSync_def)
  have f2: "fs ?w2 q = fs w q" if "q \<noteq> publicImagesDir" "q \<noteq> distImagesDir" "q \<noteq> metaDir" for q
    using that by (simp add: fs_ensure_dir)
  have fr: "fs w (path_join publicImagesDir m) = None"
    using fresh by (simp add: existsSync_def)
  have pm: "shell_plain m"
    using plain m shell_plain_replace_ext by simp
  note sp = shell_plain_path [OF plain] shell_plain_path [OF pm]
  show ?thesis
    using eligible_not_local [OF elig] fresh
    apply (simp add: downloadAndConvertImage_def path Let_def n [symmetric] m [symmetric])
    apply (simp add: fetch_and_store_def dl Let_def writeFileSync_def f2 ne nodir
        convert_and_measure_def exec_cwebp_def shell_word_def sp read_binary_def tc unlinkSync_def fr
        extractColorAt_def e2 ne [symmetric])
    done
qed


lemma meta_file_distinct:
  "path_join metaDir (n @ ''.json'') \<noteq> path_join publicImagesDir n"
  "path_join metaDir (n @ ''.json'') \<noteq> metaDir"
proof -
  have "length (path_join metaDir (n @ ''.json'')) \<noteq> length (path_join publicImagesDir n)"
    by (simp add: path_join_def metaDir_def publicImagesDir_def)
  then show "path_join metaDir (n @ ''.json'') \<noteq> path_join publicImagesDir n" by metis
  show "path_join metaDir (n @ ''.json'') \<noteq> metaDir"
    by (simp add: path_join_def)
qed

lemma cache_hit_logs:
  "fetched (snd (cache_hit e w n)) = fetched w" "transcoded (snd (cache_hit e w n)) = transcoded w"
  by (auto simp: cache_hit_def Let_def writeFileSync_def split: option.splits if_splits)

lemma cache_hit_exists:
  "existsSync w p \<Longrightarrow> existsSync (snd (cache_hit e w n)) p"
  by (auto simp: cache_hit_def Let_def writeFileSync_def ensure_dir_def mkdirSync_def existsSync_def
      split: option.splits if_splits)

lemma cache_hit_twice:
  assumes "existsSync w (path_join publicImagesDir n)"
  shows "cache_hit e (snd (cache_hit e w n)) n = cache_hit e w n"
  using assms meta_file_distinct [of n]
  by (auto simp: cache_hit_def Let_def writeFileSync_def extractColorAt_def read_binary_def
      ensure_dir_def mkdirSync_def existsSync_def split: option.splits if_splits)

lemma cache_hit_after_download:
  fixes W :: "'p world"
  assumes "fs W (path_join publicImagesDir m) = Some (File (Binary out))"
    and "fs W (path_join metaDir (m @ ''.json''))
           = Some (File (MetaJson (extractDominantColor (sharp_stats e out))))"
    and "fs W metaDir \<noteq> None"
  shows "cache_hit e W m = (\<lparr>localPath = Some (''/images/'' @ m),
            dominantColor = extractDominantColor (sharp_stats e out)\<rparr>, W)"
proof -
  have "(fs W)(path_join metaDir (m @ ''.json'') \<mapsto> File (MetaJson (extractDominantColor (sharp_stats e out)))) = fs W"
    using assms(2) by (rule map_upd_triv)
  then show ?thesis
    using assms
    by (simp add: cache_hit_def Let_def extractColorAt_def read_binary_def ensure_dir_def
        existsSync_def writeFileSync_def)
qed

text \<open>
  C2 as stated fails: \<open>downloadImage\<close> of \<open>wordpress.js\<close> has no cache check and
  fetches on every call; \<open>downloadAndConvertImage\<close> fetches and converts a second
  time when the name is not renamed (a \<open>.webp\<close> source is converted in place and then
  removed with the raw copies), and fetches a second time when the first download
  failed or when \<open>cwebp\<close> failed.
\<close>

theorem resolve_twice_counterexample:
  "fetched (snd (downloadImage good_env
       (snd (downloadImage good_env (empty_world :: unit world) (Some ''http://site.local/img/rocket.jpg'')))
       (Some ''http://site.local/img/rocket.jpg'')))
     = [''http://site.local/img/rocket.jpg'', ''http://site.local/img/rocket.jpg'']
   \<and> fetched (snd (downloadAndConvertImage good_env
       (snd (downloadAndConvertImage good_env (empty_world :: unit world) (Some ''http://site.local/img/moon.webp'')))
       (Some ''http://site.local/img/moon.webp'')))
     = [''http://site.local/img/moon.webp'', ''http://site.local/img/moon.webp'']
   \<and> length (transcoded (snd (downloadAndConvertImage good_env
       (snd (downloadAndConvertImage good_env (empty_world :: unit world) (Some ''http://site.local/img/moon.webp'')))
       (Some ''http://site.local/img/moon.webp'')))) = 4
   \<and> fetched (snd (downloadAndConvertImage offline_env
       (snd (downloadAndConvertImage offline_env (empty_world :: unit world) (Some ''http://site.local/img/rocket.jpg'')))
       (Some ''http://site.local/img/rocket.jpg'')))
     = [''http://site.local/img/rocket.jpg'', ''http://site.local/img/rocket.jpg'']
   \<and> fetched (snd (downloadAndConvertImage no_cwebp_env
       (snd (downloadAndConvertImage no_cwebp_env (empty_world :: unit world) (Some ''http://site.local/img/rocket.jpg'')))
       (Some ''http://site.local/img/rocket.jpg'')))
     = [''http://site.local/img/rocket.jpg'', ''http://site.local/img/rocket.jpg'']"
  by code_simp

text \<open>
  C2, amended. For an eligible URL whose WebP file is already cached, or whose first
  resolution by \<open>downloadAndConvertImage\<close> downloads and converts it (the download
  succeeds, \<open>cwebp\<close> succeeds, the file name is one that the shell leaves alone and
  ends in \<open>.jpg\<close>, \<open>.jpeg\<close> or \<open>.png\<close> so that the WebP name differs from the
  raw name, and no target path is a directory), the second call returns the same path
  and colour and leaves the world of the first call unchanged: no further fetch, no
  further conversion. The first call logs nothing when the file is cached; otherwise it
  logs exactly one fetch of the URL and exactly two \<open>cwebp\<close> invocations, one for
  \<open>public/images\<close> and one for \<open>dist/images\<close>. \<open>downloadImage\<close> of
  \<open>wordpress.js\<close> fetches an eligible URL on every call.
\<close>

theorem resolve_twice:
  fixes w :: "'p world"
  assumes elig: "sublist ''.local'' u \<or> sublist ''localhost'' u"
    and path: "url_pathname e u = Some pathname"
    and first: "existsSync w (path_join publicImagesDir (replace_ext (basename pathname)))
      \<or> (basename pathname \<noteq> [] \<and> basename pathname \<noteq> ''meta''
          \<and> shell_plain (basename pathname)
          \<and> replace_ext (basename pathname) \<noteq> basename pathname
          \<and> fs w (path_join publicImagesDir (basename pathname)) \<noteq> Some Dir
          \<and> fs w (path_join distImagesDir (basename pathname)) \<noteq> Some Dir
          \<and> fs w (path_join distImagesDir (replace_ext (basename pathname))) \<noteq> Some Dir
          \<and> fs w (path_join metaDir (replace_ext (basename pathname) @ ''.json'')) \<noteq> Some Dir
          \<and> (\<exists>body out. fetch e u = Response True body \<and> cwebp e body = Some out))"
  shows "downloadAndConvertImage e (snd (downloadAndConvertImage e w (Some u))) (Some u)
           = downloadAndConvertImage e w (Some u)
       \<and> (if existsSync w (path_join publicImagesDir (replace_ext (basename pathname)))
          then fetched (snd (downloadAndConvertImage e w (Some u))) = fetched w
             \<and> transcoded (snd (downloadAndConvertImage e w (Some u))) = transcoded w
          else fetched (snd (downloadAndConvertImage e w (Some u))) = fetched w @ [u]
             \<and> transcoded (snd (downloadAndConvertImage e w (Some u)))
                 = transcoded w @
                    [(path_join publicImagesDir (basename pathname),
                      path_join publicImagesDir (replace_ext (basename pathname))),
                     (path_join distImagesDir (basename pathname),
                      path_join distImagesDir (replace_ext (basename pathname)))])
       \<and> fetched (snd (downloadImage e w (Some u))) = fetched w @ [u]
       \<and> fetched (snd (downloadImage e (snd (downloadImage e w (Some u))) (Some u)))
           = fetched w @ [u, u]"
proof (cases "existsSync w (path_join publicImagesDir (replace_ext (basename pathname)))")
  case True
  let ?m = "replace_ext (basename pathname)"
  have 1: "\<And>w'. existsSync w' (path_join publicImagesDir ?m) \<Longrightarrow>
      downloadAndConvertImage e w' (Some u) = cache_hit e w' ?m"
    using eligible_not_local [OF elig]
    by (simp add: downloadAndConvertImage_def path Let_def)
  show ?thesis
    using True cache_hit_exists [OF True, of e ?m] cache_hit_twice [OF True, of e]
    by (simp add: 1 cache_hit_logs downloadImage_fetches [OF elig])
next
  case False
  with first obtain body out where h: "basename pathname \<noteq> []" "basename pathname \<noteq> ''meta''"
      "shell_plain (basename pathname)"
      "replace_ext (basename pathname) \<noteq> basename pathname"
      "fs w (path_join publicImagesDir (basename pathname)) \<noteq> Some Dir"
      "fs w (path_join distImagesDir (basename pathname)) \<noteq> Some Dir"
      "fs w (path_join distImagesDir (replace_ext (basename pathname))) \<noteq> Some Dir"
      "fs w (path_join metaDir (replace_ext (basename pathname) @ ''.json'')) \<noteq> Some Dir"
      "fetch e u = Response True body" "cwebp e body = Some out"
    by blast
  let ?m = "replace_ext (basename pathname)"
  from fresh_download [OF elig path refl refl h(1,2,3,4) False h(5-10)]
  obtain W where W: "downloadAndConvertImage e w (Some u)
            = (\<lparr>localPath = Some (''/images/'' @ ?m),
                dominantColor = extractDominantColor (sharp_stats e out)\<rparr>, W)"
    "fs W (path_join publicImagesDir ?m) = Some (File (Binary out))"
    "fs W (path_join metaDir (?m @ ''.json''))
              = Some (File (MetaJson (extractDominantColor (sharp_stats e out))))"
    "fs W metaDir \<noteq> None"
    "fetched W = fetched w @ [u]"
    "transcoded W = transcoded w @
                [(path_join publicImagesDir (basename pathname), path_join publicImagesDir ?m),
                 (path_join distImagesDir (basename pathname), path_join distImagesDir ?m)]"
    by blast
  have "existsSync W (path_join publicImagesDir ?m)"
    using W(2) by (simp add: existsSync_def)
  then have "downloadAndConvertImage e W (Some u) = cache_hit e W ?m"
    using eligible_not_local [OF elig]
    by (simp add: downloadAndConvertImage_def path Let_def)
  with cache_hit_after_download [OF W(2,3,4)] W(1,5,6) False show ?thesis
    by (simp add: downloadImage_fetches [OF elig])
qed

theorem resolve_twice_witness:
  "downloadAndConvertImage good_env
       (snd (downloadAndConvertImage good_env (empty_world :: unit world) (Some ''http://site.local/img/rocket.jpg'')))
       (Some ''http://site.local/img/rocket.jpg'')
     = downloadAndConvertImage good_env empty_world (Some ''http://site.local/img/rocket.jpg'')
   \<and> fetched (snd (downloadAndConvertImage good_env (empty_world :: unit world)
         (Some ''http://site.local/img/rocket.jpg''))) = [''http://site.local/img/rocket.jpg'']
   \<and> transcoded (snd (downloadAndConvertImage good_env (empty_world :: unit world)
         (Some ''http://site.local/img/rocket.jpg'')))
       = [(''public/images/rocket.jpg'', ''public/images/rocket.webp''),
          (''dist/images/rocket.jpg'', ''dist/images/rocket.webp'')]
   \<and> fetched (snd (downloadImage good_env (snd (downloadImage good_env (empty_world :: unit world)
         (Some ''http://site.local/img/rocket.jpg''))) (Some ''http://site.local/img/rocket.jpg'')))
       = [''http://site.local/img/rocket.jpg'', ''http://site.local/img/rocket.jpg'']"
proof -
  let ?u = "''http://site.local/img/rocket.jpg''"
  have "includes_str ?u ''.local''" by code_simp
  then have "sublist ''.local'' ?u"
    by (simp only: includes_str_sublist)
  then have a: "sublist ''.local'' ?u \<or> sublist ''localhost'' ?u"
    by (rule disjI1)
  have b: "url_pathname good_env ?u = Some ''/img/rocket.jpg''" by code_simp
  have n: "basename ''/img/rocket.jpg'' = ''rocket.jpg''" by code_simp
  have m: "replace_ext ''rocket.jpg'' = ''rocket.webp''" by code_simp
  have c: "basename ''/img/rocket.jpg'' \<noteq> [] \<and> basename ''/img/rocket.jpg'' \<noteq> ''meta''
          \<and> shell_plain (basename ''/img/rocket.jpg'')
          \<and> replace_ext (basename ''/img/rocket.jpg'') \<noteq> basename ''/img/rocket.jpg''"
    by code_simp
  have d: "fs (empty_world :: unit world) p \<noteq> Some Dir" for p
    by (simp add: empty_world_def)
  have x: "\<not> existsSync (empty_world :: unit world) p" for p
    by (simp add: empty_world_def existsSync_def)
  have f: "\<exists>body out. fetch good_env ?u = Response True body \<and> cwebp good_env body = Some out"
    by (simp add: good_env_def)
  have g: "fetched (empty_world :: unit world) = []" "transcoded (empty_world :: unit world) = []"
    by (simp_all add: empty_world_def)
  from c d f have "existsSync (empty_world :: unit world) (path_join publicImagesDir (replace_ext (basename ''/img/rocket.jpg'')))
      \<or> (basename ''/img/rocket.jpg'' \<noteq> [] \<and> basename ''/img/rocket.jpg'' \<noteq> ''meta''
          \<and> shell_plain (basename ''/img/rocket.jpg'')
          \<and> replace_ext (basename ''/img/rocket.jpg'') \<noteq> basename ''/img/rocket.jpg''
          \<and> fs (empty_world :: unit world) (path_join publicImagesDir (basename ''/img/rocket.jpg'')) \<noteq> Some Dir
          \<and> fs (empty_world :: unit world) (path_join distImagesDir (basename ''/img/rocket.jpg'')) \<noteq> Some Dir
          \<and> fs (empty_world :: unit world) (path_join distImagesDir (replace_ext (basename ''/img/rocket.jpg''))) \<noteq> Some Dir
          \<and> fs (empty_world :: unit world) (path_join metaDir (replace_ext (basename ''/img/rocket.jpg'') @ ''.json'')) \<noteq> Some Dir
          \<and> (\<exists>body out. fetch good_env ?u = Response True body \<and> cwebp good_env body = Some out))"
    by blast
  from resolve_twice [OF a b this, unfolded n m]
  show ?thesis
    by (simp add: x g path_join_def publicImagesDir_def distImagesDir_def)
qed

text \<open>
  C10. \<open>transformWordPressPost\<close> returns a post for every input: \<open>id\<close> and \<open>slug\<close>
  are the input's slug, a missing excerpt gives the empty description, a missing featured
  image gives a null hero image, width, height and colour, and missing categories or tags
  give empty lists.
\<close>

theorem transform_defaults:
  "post_id (fst (transformWordPressPost e w p)) = wp_slug p
   \<and> post_slug (fst (transformWordPressPost e w p)) = wp_slug p
   \<and> (wp_excerpt p = None \<longrightarrow> description (post_data (fst (transformWordPressPost e w p))) = [])
   \<and> (wp_featuredImage p = None \<longrightarrow>
         heroImage (post_data (fst (transformWordPressPost e w p))) = None
       \<and> imageWidth (post_data (fst (transformWordPressPost e w p))) = None
       \<and> imageHeight (post_data (fst (transformWordPressPost e w p))) = None
       \<and> heroColor (post_data (fst (transformWordPressPost e w p))) = None)
   \<and> (wp_categories p = None \<longrightarrow> categories (post_data (fst (transformWordPressPost e w p))) = [])
   \<and> (wp_tags p = None \<longrightarrow> tags (post_data (fst (transformWordPressPost e w p))) = [])"
  by (simp add: transformWordPressPost_def Let_def split_beta chain_def truthy_def
      string_or_null_def number_or_null_def list_or_empty_def null_result_def)

theorem transform_defaults_witness:
  "post_id (fst (transformWordPressPost good_env (empty_world :: unit world) bare_post)) = Some ''hello-moon''
   \<and> post_slug (fst (transformWordPressPost good_env (empty_world :: unit world) bare_post)) = Some ''hello-moon''
   \<and> description (post_data (fst (transformWordPressPost good_env (empty_world :: unit world) bare_post))) = []
   \<and> heroImage (post_data (fst (transformWordPressPost good_env (empty_world :: unit world) bare_post))) = None
   \<and> imageWidth (post_data (fst (transformWordPressPost good_env (empty_world :: unit world) bare_post))) = None
   \<and> imageHeight (post_data (fst (transformWordPressPost good_env (empty_world :: unit world) bare_post))) = None
   \<and> heroColor (post_data (fst (transformWordPressPost good_env (empty_world :: unit world) bare_post))) = None
   \<and> categories (post_data (fst (transformWordPressPost good_env (empty_world :: unit world) bare_post))) = []
   \<and> tags (post_data (fst (transformWordPressPost good_env (empty_world :: unit world) bare_post))) = []"
  using transform_defaults [of good_env "empty_world :: unit world" bare_post]
  by (simp add: bare_post_def)


text \<open>
  C1. With the content source unreachable (or answering with an error status),
  \<open>syncData\<close> of \<open>scripts/sync-data.js\<close> still overwrites the published
  \<open>posts.json\<close> with an empty list and ends with exit code 0, whereas \<open>syncImages\<close>
  stops with exit code 1 and leaves the world untouched.
\<close>

theorem syncData_unreachable_source:
  "fs published_world dataFile = Some (File (PostsJson [old_post]))
   \<and> fst (syncData e published_world Unreachable) = 0
   \<and> fs (snd (syncData e published_world Unreachable)) dataFile = Some (File (PostsJson []))
   \<and> fst (syncData e published_world (HttpError 500)) = 0
   \<and> fs (snd (syncData e published_world (HttpError 500))) dataFile = Some (File (PostsJson []))
   \<and> syncImages e w Unreachable = (1, \<lparr>processed = 0, skipped = 0, failed = 0\<rparr>, w)"
  by (simp add: syncData_def getWordPressPosts_def fetchWordPressPosts_def published_world_def
      ensure_dir_def existsSync_def writeFileSync_def dataDir_def dataFile_def empty_world_def
      syncImages_def Let_def)

end
